theory Spec2Isabelle
  imports Main "HOL-Library.Word" "HOL-Library.Sublist"
begin

section \<open>The Post controller of golang-gorm-postgres\<close>

text \<open>
  A shallow embedding of \<^verbatim>\<open>controllers/post.controller.go\<close>: the five gin handlers
  \<^verbatim>\<open>CreatePost\<close>, \<^verbatim>\<open>UpdatePost\<close>, \<^verbatim>\<open>FindPostById\<close>, \<^verbatim>\<open>FindPosts\<close> and
  \<^verbatim>\<open>DeletePost\<close>. A handler reads its inputs from the gin context, calls the store
  through \<^verbatim>\<open>pc.DB\<close> and answers with \<^verbatim>\<open>ctx.JSON(status, body)\<close>; here it is a
  function from the table, the outcome of the environment and the inputs to the new
  table and the response.
\<close>

subsection \<open>Data\<close>

type_synonym uuid = string
type_synonym time = nat
type_synonym error = string
type_synonym go_int = "64 word"

text \<open>
  Modelled from the spec: the package \<^verbatim>\<open>models\<close> (the structs \<^verbatim>\<open>Post\<close>, \<^verbatim>\<open>User\<close>,
  \<^verbatim>\<open>CreatePostRequest\<close> and \<^verbatim>\<open>UpdatePost\<close>) is not among the sources. The fields are
  those the controller reads and writes, with the meaning of section 3 of the
  specification. An identifier is a string whose zero value is the empty string, a
  time is a number of ticks since Go's zero time (the zero value is 0), and \<^verbatim>\<open>int\<close> is
  the 64-bit integer of the usual platforms.
\<close>

record Post =
  ID :: uuid
  Title :: string
  Content :: string
  Image :: string
  User :: uuid
  CreatedAt :: time
  UpdatedAt :: time

record User =
  UserID :: uuid

record CreatePostRequest =
  ReqTitle :: string
  ReqContent :: string
  ReqImage :: string

record UpdatePostPayload =
  UpdTitle :: string
  UpdContent :: string
  UpdImage :: string

text \<open>The table of posts, in the store's natural order.\<close>

type_synonym DB = "Post list"

subsection \<open>Responses\<close>

text \<open>
  The bodies the handlers build with \<^verbatim>\<open>gin.H\<close>: a status with a message, a status with
  one post, a status with a count and the posts, a status with the error value itself
  (\<^verbatim>\<open>FindPosts\<close>), and the bare error text (\<^verbatim>\<open>CreatePost\<close> on a payload that does not
  bind).
\<close>

datatype body =
    StatusMessage string string
  | StatusData string Post
  | StatusResults string nat "Post list"
  | StatusError string error
  | Plain string

datatype response = JSON nat body

definition StatusOK :: nat where "StatusOK = 200"
definition StatusCreated :: nat where "StatusCreated = 201"
definition StatusNoContent :: nat where "StatusNoContent = 204"
definition StatusBadRequest :: nat where "StatusBadRequest = 400"
definition StatusNotFound :: nat where "StatusNotFound = 404"
definition StatusConflict :: nat where "StatusConflict = 409"
definition StatusBadGateway :: nat where "StatusBadGateway = 502"

subsection \<open>The standard library: \<^verbatim>\<open>strings.Contains\<close> and \<^verbatim>\<open>strconv.Atoi\<close>\<close>

fun HasPrefix :: "string \<Rightarrow> string \<Rightarrow> bool" where
  "HasPrefix s [] = True"
| "HasPrefix [] (c # cs) = False"
| "HasPrefix (x # xs) (c # cs) = (x = c \<and> HasPrefix xs cs)"

fun Contains :: "string \<Rightarrow> string \<Rightarrow> bool" where
  "Contains [] substr = (substr = [])"
| "Contains (x # xs) substr = (HasPrefix (x # xs) substr \<or> Contains xs substr)"

datatype NumError = ErrSyntax | ErrRange

definition is_digit :: "char \<Rightarrow> bool" where
  "is_digit c = (48 \<le> (of_char c :: nat) \<and> (of_char c :: nat) \<le> 57)"

definition digit_val :: "char \<Rightarrow> nat" where
  "digit_val c = of_char c - 48"

text \<open>
  The loop of \<^verbatim>\<open>strconv.ParseUint(s, 10, 64)\<close>: a byte that is no decimal digit is a
  syntax error, and the loop returns a range error as soon as the number read so far
  leaves the 64 bits, before it looks at the bytes that follow.
\<close>

fun parse_digits :: "nat \<Rightarrow> string \<Rightarrow> NumError + nat" where
  "parse_digits n [] = Inr n"
| "parse_digits n (c # cs) =
     (if \<not> is_digit c then Inl ErrSyntax
      else if 2 ^ 64 \<le> n * 10 + digit_val c then Inl ErrRange
      else parse_digits (n * 10 + digit_val c) cs)"

definition MaxInt64 :: go_int where "MaxInt64 = 9223372036854775807"
definition MinInt64 :: go_int where "MinInt64 = - 9223372036854775808"

text \<open>
  \<^verbatim>\<open>strconv.Atoi\<close> on a 64-bit platform. Its fast path (fewer than 19 bytes) and its
  slow path (\<^verbatim>\<open>ParseInt(s, 10, 0)\<close>) agree wherever both apply: an optional sign, then
  at least one digit. On a syntax error the integer returned is 0; on a range error
  it is the nearest bound of \<^verbatim>\<open>int64\<close>.
\<close>

definition Atoi :: "string \<Rightarrow> go_int \<times> NumError option" where
  "Atoi s =
     (if s = [] then (0, Some ErrSyntax)
      else
        let neg = (hd s = CHR ''-'');
            s1 = (if hd s = CHR ''-'' \<or> hd s = CHR ''+'' then tl s else s)
        in if s1 = [] then (0, Some ErrSyntax)
           else (case parse_digits 0 s1 of
                   Inl ErrSyntax \<Rightarrow> (0, Some ErrSyntax)
                 | Inl ErrRange \<Rightarrow> (if neg then MinInt64 else MaxInt64, Some ErrRange)
                 | Inr un \<Rightarrow>
                     if \<not> neg \<and> 2 ^ 63 \<le> un then (MaxInt64, Some ErrRange)
                     else if neg \<and> 2 ^ 63 < un then (MinInt64, Some ErrRange)
                     else (if neg then - of_nat un else of_nat un, None)))"

subsection \<open>The store: the calls of gorm the controller makes\<close>

text \<open>
  Every call takes the failure the environment inflicts on it, if any (a lost
  connection, a timeout): the call then returns that error and leaves the table as it
  is. Otherwise it acts on the table as gorm and the database do.
\<close>

definition duplicate_key :: error where
  "duplicate_key = ''ERROR: duplicate key value violates unique constraint (SQLSTATE 23505)''"

definition ErrRecordNotFound :: error where
  "ErrRecordNotFound = ''record not found''"

definition ErrMissingWhereClause :: error where
  "ErrMissingWhereClause = ''WHERE conditions required''"

text \<open>
  \<^verbatim>\<open>DB.Create(&newPost)\<close>: the store gives the row its identifier (\<open>newId\<close>, the value
  its default generates) and writes the identifier back into the struct.
  Modelled from the spec: the title is unique across posts, and the store enforces it
  (section 3); so is the identifier, the primary key.
\<close>

definition db_Create :: "DB \<Rightarrow> error option \<Rightarrow> uuid \<Rightarrow> Post \<Rightarrow> DB \<times> Post \<times> error option" where
  "db_Create db fault newId p =
     (case fault of
        Some e \<Rightarrow> (db, p, Some e)
      | None \<Rightarrow>
          let row = (if ID p = [] then p\<lparr>ID := newId\<rparr> else p)
          in if list_ex (\<lambda>q. Title q = Title row \<or> ID q = ID row) db
             then (db, p, Some duplicate_key)
             else (db @ [row], row, None))"

text \<open>\<^verbatim>\<open>DB.First(&post, "id = ?", postId)\<close>: the row with that identifier, or an error.\<close>

definition db_First :: "DB \<Rightarrow> error option \<Rightarrow> uuid \<Rightarrow> error + Post" where
  "db_First db fault postId =
     (case fault of
        Some e \<Rightarrow> Inl e
      | None \<Rightarrow>
          (case find (\<lambda>q. ID q = postId) db of
             None \<Rightarrow> Inl ErrRecordNotFound
           | Some p \<Rightarrow> Inr p))"

text \<open>
  What \<^verbatim>\<open>Updates\<close> assigns when it is given a struct: the fields of the struct that
  are not the zero value of their type, and \<^verbatim>\<open>UpdatedAt\<close>, which gorm sets to its own
  reading of the clock (\<open>tnow\<close>) on every update. The other fields keep their value.
\<close>

definition assign_fields :: "time \<Rightarrow> Post \<Rightarrow> Post \<Rightarrow> Post" where
  "assign_fields tnow m u =
     \<lparr> ID = (if ID u = [] then ID m else ID u),
       Title = (if Title u = [] then Title m else Title u),
       Content = (if Content u = [] then Content m else Content u),
       Image = (if Image u = [] then Image m else Image u),
       User = (if User u = [] then User m else User u),
       CreatedAt = (if CreatedAt u = 0 then CreatedAt m else CreatedAt u),
       UpdatedAt = tnow \<rparr>"

text \<open>
  \<^verbatim>\<open>DB.Model(&m).Updates(u)\<close>: the rows whose primary key is that of the model \<open>m\<close> get
  the assigned fields. gorm also assigns them to the model struct itself, while it
  builds the statement and so whether or not the database then accepts it: the second
  component is the model after the call. When the environment fails the call, the
  transaction does not begin and gorm returns before it builds the statement, so the
  struct stays as it was. A model with no primary key is refused, and a title that
  another row holds violates the unique index.
\<close>

definition db_Updates :: "DB \<Rightarrow> error option \<Rightarrow> time \<Rightarrow> Post \<Rightarrow> Post \<Rightarrow> DB \<times> Post \<times> error option" where
  "db_Updates db fault tnow m u =
     (let m' = assign_fields tnow m u in
      case fault of
        Some e \<Rightarrow> (db, m, Some e)
      | None \<Rightarrow>
          if ID m = [] then (db, m', Some ErrMissingWhereClause)
          else if Title u \<noteq> [] \<and> list_ex (\<lambda>q. ID q \<noteq> ID m \<and> Title q = Title u) db
          then (db, m', Some duplicate_key)
          else if ID u \<noteq> [] \<and> ID u \<noteq> ID m \<and> list_ex (\<lambda>q. ID q = ID u) db
          then (db, m', Some duplicate_key)
          else (map (\<lambda>q. if ID q = ID m then assign_fields tnow q u else q) db, m', None))"

text \<open>
  \<^verbatim>\<open>DB.Delete(&models.Post{}, "id = ?", postId)\<close>: the rows with that identifier are
  removed. The second component is \<^verbatim>\<open>RowsAffected\<close>. Deleting no row is no error.
\<close>

definition db_Delete :: "DB \<Rightarrow> error option \<Rightarrow> uuid \<Rightarrow> DB \<times> nat \<times> error option" where
  "db_Delete db fault postId =
     (case fault of
        Some e \<Rightarrow> (db, 0, Some e)
      | None \<Rightarrow>
          (filter (\<lambda>q. ID q \<noteq> postId) db, length (filter (\<lambda>q. ID q = postId) db), None))"

text \<open>
  \<^verbatim>\<open>DB.Limit(limit).Offset(offset).Find(&posts)\<close>: gorm writes the \<^verbatim>\<open>OFFSET\<close> clause
  only for a positive offset and the \<^verbatim>\<open>LIMIT\<close> clause only for a limit that is not
  negative (so since its release 1.25; before it, a limit of 0 was left out as a
  negative one is). The rows come in the order of the table.
\<close>

definition db_Find :: "DB \<Rightarrow> error option \<Rightarrow> go_int \<Rightarrow> go_int \<Rightarrow> Post list \<times> error option" where
  "db_Find db fault limit offset =
     (case fault of
        Some e \<Rightarrow> ([], Some e)
      | None \<Rightarrow>
          let skipped = (if 0 < sint offset then drop (nat (sint offset)) db else db)
          in (if 0 \<le> sint limit then take (nat (sint limit)) skipped else skipped, None))"

subsection \<open>The handlers\<close>

text \<open>\<^verbatim>\<open>ctx.DefaultQuery(key, def)\<close>: the value of the key when the query has it.\<close>

definition DefaultQuery :: "string option \<Rightarrow> string \<Rightarrow> string" where
  "DefaultQuery q d = (case q of Some v \<Rightarrow> v | None \<Rightarrow> d)"

text \<open>
  \<^verbatim>\<open>CreatePost\<close>. \<open>bound\<close> is what \<^verbatim>\<open>ctx.ShouldBindJSON(&payload)\<close> yields: its error
  or the payload; \<open>now\<close> is \<^verbatim>\<open>time.Now()\<close>. \<open>newPost\<close> is the struct literal of the
  handler, whose \<^verbatim>\<open>ID\<close> is left at its zero value.
\<close>

definition newPost :: "CreatePostRequest \<Rightarrow> User \<Rightarrow> time \<Rightarrow> Post" where
  "newPost payload currentUser now =
     \<lparr> ID = [], Title = ReqTitle payload, Content = ReqContent payload,
       Image = ReqImage payload, User = UserID currentUser,
       CreatedAt = now, UpdatedAt = now \<rparr>"

definition CreatePost ::
  "DB \<Rightarrow> error option \<Rightarrow> uuid \<Rightarrow> time \<Rightarrow> User \<Rightarrow> error + CreatePostRequest \<Rightarrow> DB \<times> response" where
  "CreatePost db fault newId now currentUser bound =
     (case bound of
        Inl err \<Rightarrow> (db, JSON StatusBadRequest (Plain err))
      | Inr payload \<Rightarrow>
          (case db_Create db fault newId (newPost payload currentUser now) of
             (db', newPost', Some e) \<Rightarrow>
               if Contains e ''duplicate key''
               then (db', JSON StatusConflict
                            (StatusMessage ''fail'' ''Post with that title already exists''))
               else (db', JSON StatusBadGateway (StatusMessage ''error'' e))
           | (db', newPost', None) \<Rightarrow>
               (db', JSON StatusCreated (StatusData ''success'' newPost'))))"

text \<open>
  \<^verbatim>\<open>UpdatePost\<close>. \<open>readFault\<close> is the failure of the environment at \<^verbatim>\<open>First\<close>, \<open>writeFault\<close>
  at \<^verbatim>\<open>Updates\<close>; \<open>now\<close> is \<^verbatim>\<open>time.Now()\<close> in the handler and \<open>tnow\<close> the clock gorm
  reads in \<^verbatim>\<open>Updates\<close>. \<open>postToUpdate\<close> is the struct literal of the handler. The
  result of \<^verbatim>\<open>Updates\<close> is dropped, and the response carries the model struct as
  \<^verbatim>\<open>Updates\<close> left it.
\<close>

definition postToUpdate :: "UpdatePostPayload \<Rightarrow> User \<Rightarrow> Post \<Rightarrow> time \<Rightarrow> Post" where
  "postToUpdate payload currentUser updatedPost now =
     \<lparr> ID = [], Title = UpdTitle payload, Content = UpdContent payload,
       Image = UpdImage payload, User = UserID currentUser,
       CreatedAt = CreatedAt updatedPost, UpdatedAt = now \<rparr>"

definition UpdatePost ::
  "DB \<Rightarrow> error option \<Rightarrow> error option \<Rightarrow> time \<Rightarrow> time \<Rightarrow> uuid \<Rightarrow> User \<Rightarrow>
     error + UpdatePostPayload \<Rightarrow> DB \<times> response" where
  "UpdatePost db readFault writeFault now tnow postId currentUser bound =
     (case bound of
        Inl err \<Rightarrow> (db, JSON StatusBadGateway (StatusMessage ''fail'' err))
      | Inr payload \<Rightarrow>
          (case db_First db readFault postId of
             Inl e \<Rightarrow>
               (db, JSON StatusNotFound (StatusMessage ''fail'' ''No post with that title exists''))
           | Inr updatedPost \<Rightarrow>
               (case db_Updates db writeFault tnow updatedPost
                       (postToUpdate payload currentUser updatedPost now) of
                  (db', updatedPost', _) \<Rightarrow>
                    (db', JSON StatusOK (StatusData ''success'' updatedPost')))))"

definition FindPostById :: "DB \<Rightarrow> error option \<Rightarrow> uuid \<Rightarrow> response" where
  "FindPostById db fault postId =
     (case db_First db fault postId of
        Inl e \<Rightarrow> JSON StatusNotFound (StatusMessage ''fail'' ''No post with that title exists'')
      | Inr post \<Rightarrow> JSON StatusOK (StatusData ''success'' post))"

text \<open>
  \<^verbatim>\<open>FindPosts\<close>. \<open>pageq\<close> and \<open>limitq\<close> are the query's values for \<^verbatim>\<open>page\<close> and
  \<^verbatim>\<open>limit\<close>, \<open>None\<close> when the query has no such key. The errors of \<^verbatim>\<open>Atoi\<close> are
  dropped, and the offset is computed on \<^verbatim>\<open>int\<close>, so it wraps around.
\<close>

definition FindPosts :: "DB \<Rightarrow> error option \<Rightarrow> string option \<Rightarrow> string option \<Rightarrow> response" where
  "FindPosts db fault pageq limitq =
     (let page = DefaultQuery pageq ''1'';
          limit = DefaultQuery limitq ''10'';
          intPage = fst (Atoi page);
          intLimit = fst (Atoi limit);
          offset = (intPage - 1) * intLimit
      in case db_Find db fault intLimit offset of
           (posts, Some e) \<Rightarrow> JSON StatusBadGateway (StatusError ''error'' e)
         | (posts, None) \<Rightarrow> JSON StatusOK (StatusResults ''success'' (length posts) posts))"

definition DeletePost :: "DB \<Rightarrow> error option \<Rightarrow> uuid \<Rightarrow> DB \<times> response" where
  "DeletePost db fault postId =
     (case db_Delete db fault postId of
        (db', _, Some e) \<Rightarrow>
          (db', JSON StatusNotFound (StatusMessage ''fail'' ''No post with that title exists''))
      | (db', _, None) \<Rightarrow>
          (db', JSON StatusNoContent (StatusMessage ''Success'' ''Succesfully delete a record'')))"

subsection \<open>Reading the table back, and the tables of the examples\<close>

text \<open>The record a later \<^verbatim>\<open>First\<close> reads under an identifier, when the store is up.\<close>

definition stored :: "DB \<Rightarrow> uuid \<Rightarrow> Post option" where
  "stored db postId = (case db_First db None postId of Inl e \<Rightarrow> None | Inr p \<Rightarrow> Some p)"

definition post_a :: Post where
  "post_a = \<lparr> ID = ''p1'', Title = ''first'', Content = ''hello'', Image = ''a.png'',
               User = ''alice'', CreatedAt = 5, UpdatedAt = 7 \<rparr>"

definition post_b :: Post where
  "post_b = \<lparr> ID = ''p2'', Title = ''second'', Content = ''world'', Image = ''b.png'',
               User = ''alice'', CreatedAt = 8, UpdatedAt = 9 \<rparr>"

definition bob :: User where
  "bob = \<lparr> UserID = ''bob'' \<rparr>"

definition request_a :: CreatePostRequest where
  "request_a = \<lparr> ReqTitle = ''first'', ReqContent = ''again'', ReqImage = [] \<rparr>"

definition retitle :: "string \<Rightarrow> UpdatePostPayload" where
  "retitle t = \<lparr> UpdTitle = t, UpdContent = [], UpdImage = [] \<rparr>"

text \<open>Fifteen posts, with the identifiers and titles \<open>x\<close>, \<open>xx\<close>, ... and \<open>t\<close>, \<open>tt\<close>, ...\<close>

definition fifteen_posts :: DB where
  "fifteen_posts =
     map (\<lambda>i. \<lparr> ID = replicate i CHR ''x'', Title = replicate i CHR ''t'', Content = ''c'',
                  Image = [], User = ''alice'', CreatedAt = i, UpdatedAt = i \<rparr>) [1..<16]"

section \<open>Properties\<close>

subsection \<open>The standard library and the store\<close>

lemmas http_status =
  StatusOK_def StatusCreated_def StatusNoContent_def StatusBadRequest_def
  StatusNotFound_def StatusConflict_def StatusBadGateway_def

lemma HasPrefix_prefix: "HasPrefix s t \<longleftrightarrow> prefix t s"
  by (induction s t rule: HasPrefix.induct) auto

text \<open>\<open>Contains\<close> is the substring test.\<close>

lemma Contains_sublist: "Contains s t \<longleftrightarrow> sublist t s"
  by (induction s) (auto simp: HasPrefix_prefix sublist_Cons_right)

lemmas atoi_defs = Atoi_def is_digit_def digit_val_def MaxInt64_def MinInt64_def


lemma Atoi_literals:
  "Atoi ''0'' = (0, None)"
  "Atoi ''1'' = (1, None)"
  "Atoi ''2'' = (2, None)"
  "Atoi ''10'' = (10, None)"
  "Atoi ''9223372036854775807'' = (MaxInt64, None)"
  "Atoi ''-9223372036854775808'' = (MinInt64, None)"
  by (simp_all add: atoi_defs)

lemma db_Create_failed: "db_Create db fault newId p = (db', p', Some e) \<Longrightarrow> db' = db"
  by (auto simp: db_Create_def Let_def split: option.splits if_splits)

lemma db_Find_window:
  "0 \<le> sint limit \<Longrightarrow>
   db_Find db None limit offset = (take (nat (sint limit)) (drop (nat (sint offset)) db), None)"
  by (simp add: db_Find_def)

lemma length_fifteen_posts: "length fifteen_posts = 15"
  by (simp add: fifteen_posts_def)



lemma stored_find: "stored db postId = find (\<lambda>q. ID q = postId) db"
  by (simp add: stored_def db_First_def split: option.splits)

lemma db_First_Inr_find:
  "db_First db fault postId = Inr p \<Longrightarrow> find (\<lambda>q. ID q = postId) db = Some p"
  by (simp add: db_First_def split: option.splits)

lemma db_First_Inr_ID: "db_First db fault postId = Inr p \<Longrightarrow> ID p = postId"
  by (auto simp: db_First_def find_Some_iff split: option.splits)

lemma ID_assign_fields: "ID u = [] \<Longrightarrow> ID (assign_fields tnow q u) = ID q"
  by (simp add: assign_fields_def)

lemma find_map_assign:
  assumes "find (\<lambda>q. ID q = i) db = Some p" and "ID u = []"
  shows "find (\<lambda>q. ID q = i) (map (\<lambda>q. if ID q = i then assign_fields tnow q u else q) db)
           = Some (assign_fields tnow p u)"
  using assms
proof (induction db)
  case Nil
  then show ?case by simp
next
  case (Cons r db)
  then show ?case by (cases "ID r = i") (simp_all add: ID_assign_fields)
qed

lemma db_Updates_model:
  "db_Updates db fault tnow m u = (db', m', None) \<Longrightarrow> m' = assign_fields tnow m u"
  by (auto simp: db_Updates_def Let_def split: option.splits if_splits)

lemma db_Updates_failed: "db_Updates db fault tnow m u = (db', m', Some e) \<Longrightarrow> db' = db"
  by (auto simp: db_Updates_def Let_def split: option.splits if_splits)

lemma db_Updates_written:
  assumes "db_Updates db fault tnow m u = (db', m', None)"
  shows "db' = map (\<lambda>q. if ID q = ID m then assign_fields tnow q u else q) db"
  using assms by (auto simp: db_Updates_def Let_def split: option.splits if_splits)

subsection \<open>\<^verbatim>\<open>UpdatePost\<close> on a record that exists\<close>

lemma UpdatePost_existing:
  assumes "db_First db readFault postId = Inr p"
    and "db_Updates db writeFault tnow p (postToUpdate payload currentUser p now) = (db', p', err)"
  shows "UpdatePost db readFault writeFault now tnow postId currentUser (Inr payload)
           = (db', JSON StatusOK (StatusData ''success'' p'))"
  using assms by (simp add: UpdatePost_def)

lemma UpdatePost_written:
  assumes "db_First db readFault postId = Inr p"
    and "db_Updates db writeFault tnow p (postToUpdate payload currentUser p now) = (db', p', None)"
  shows "stored db' postId = Some (assign_fields tnow p (postToUpdate payload currentUser p now))"
proof -
  let ?u = "postToUpdate payload currentUser p now"
  have i: "ID p = postId" using assms(1) by (rule db_First_Inr_ID)
  have z: "ID ?u = []" by (simp add: postToUpdate_def)
  have "db' = map (\<lambda>q. if ID q = postId then assign_fields tnow q ?u else q) db"
    using db_Updates_written [OF assms(2)] i by simp
  then show ?thesis
    using find_map_assign [OF db_First_Inr_find [OF assms(1)] z] by (simp add: stored_find)
qed

lemmas example_defs =
  post_a_def post_b_def bob_def retitle_def db_First_def db_Updates_def postToUpdate_def
  assign_fields_def stored_def duplicate_key_def

lemma UpdatePost_succeeded:
  assumes "db_First db readFault postId = Inr p"
    and "snd (snd (db_Updates db writeFault tnow p (postToUpdate payload currentUser p now))) = None"
  shows "snd (UpdatePost db readFault writeFault now tnow postId currentUser (Inr payload))
           = JSON StatusOK (StatusData ''success''
               (assign_fields tnow p (postToUpdate payload currentUser p now)))"
    and "stored (fst (UpdatePost db readFault writeFault now tnow postId currentUser (Inr payload)))
           postId
           = Some (assign_fields tnow p (postToUpdate payload currentUser p now))"
proof -
  let ?u = "postToUpdate payload currentUser p now"
  let ?call = "UpdatePost db readFault writeFault now tnow postId currentUser (Inr payload)"
  obtain db' p' where w: "db_Updates db writeFault tnow p ?u = (db', p', None)"
    using assms(2) by (cases "db_Updates db writeFault tnow p ?u") auto
  have r: "?call = (db', JSON StatusOK (StatusData ''success'' p'))"
    using assms(1) w by (rule UpdatePost_existing)
  show "snd ?call = JSON StatusOK (StatusData ''success'' (assign_fields tnow p ?u))"
    using r db_Updates_model [OF w] by simp
  show "stored (fst ?call) postId = Some (assign_fields tnow p ?u)"
    using r UpdatePost_written [OF assms(1) w] by simp
qed

section \<open>The claims\<close>

text \<open>
  C1. The claim: a \<^verbatim>\<open>Delete\<close> whose identifier matches no stored record returns
  NotFound (404), the handler checking the count of deleted rows. The handler looks
  only at the error of the store, and deleting no row is no error: whenever the store
  call itself does not fail, the answer is 204 with the success message, whether or
  not a row had that identifier. The theorem states what the handler does; the
  example deletes the identifier \<open>p2\<close> from a table that holds only \<open>p1\<close>.
\<close>

theorem DeletePost_without_match_reports_success:
  "DeletePost db None postId =
     (filter (\<lambda>q. ID q \<noteq> postId) db,
      JSON StatusNoContent (StatusMessage ''Success'' ''Succesfully delete a record''))"
  by (simp add: DeletePost_def db_Delete_def)

theorem DeletePost_without_match_witness:
  "stored [post_a] ''p2'' = None \<and>
   DeletePost [post_a] None ''p2'' =
     ([post_a], JSON 204 (StatusMessage ''Success'' ''Succesfully delete a record''))"
  using DeletePost_without_match_reports_success [of "[post_a]" "''p2''"]
  by (simp add: example_defs http_status)

text \<open>
  C2. The claim: when the write of an \<^verbatim>\<open>Update\<close> fails in the store, the caller is
  told so (UpstreamFailure), never success. The handler drops the result of
  \<^verbatim>\<open>Updates\<close>: when the record exists and the write fails with any error, the answer
  is 200 with status \<open>success\<close>, and the table is as it was. The example gives the
  second post the title of the first, which the unique index refuses.
\<close>

theorem UpdatePost_write_failure_answers_OK:
  assumes "db_First db readFault postId = Inr p"
    and "db_Updates db writeFault tnow p (postToUpdate payload currentUser p now)
           = (db', p', Some e)"
  shows "UpdatePost db readFault writeFault now tnow postId currentUser (Inr payload)
           = (db, JSON StatusOK (StatusData ''success'' p'))"
  using UpdatePost_existing [OF assms] db_Updates_failed [OF assms(2)] by simp

theorem UpdatePost_write_failure_witness:
  "db_First [post_a, post_b] None ''p2'' = Inr post_b \<and>
   db_Updates [post_a, post_b] None 21 post_b (postToUpdate (retitle ''first'') bob post_b 20)
     = ([post_a, post_b], post_b\<lparr>Title := ''first'', User := ''bob'', UpdatedAt := 21\<rparr>,
        Some duplicate_key) \<and>
   UpdatePost [post_a, post_b] None None 20 21 ''p2'' bob (Inr (retitle ''first''))
     = ([post_a, post_b],
        JSON 200 (StatusData ''success''
          (post_b\<lparr>Title := ''first'', User := ''bob'', UpdatedAt := 21\<rparr>)))"
proof -
  have f: "db_First [post_a, post_b] None ''p2'' = Inr post_b"
    by (simp add: example_defs)
  have u: "db_Updates [post_a, post_b] None 21 post_b
             (postToUpdate (retitle ''first'') bob post_b 20)
     = ([post_a, post_b], post_b\<lparr>Title := ''first'', User := ''bob'', UpdatedAt := 21\<rparr>,
        Some duplicate_key)"
    by (simp add: example_defs)
  show ?thesis
    using f u UpdatePost_write_failure_answers_OK [OF f u] by (simp add: http_status)
qed

text \<open>
  C8. An \<^verbatim>\<open>Update\<close> whose identifier matches no stored record answers 404 and leaves
  the table as it was, whatever the payload, the requester and the state of the
  store: \<^verbatim>\<open>Updates\<close> is not reached.
\<close>

theorem UpdatePost_absent_NotFound:
  assumes "stored db postId = None"
  shows "UpdatePost db readFault writeFault now tnow postId currentUser (Inr payload)
           = (db, JSON StatusNotFound (StatusMessage ''fail'' ''No post with that title exists''))"
  using assms
  by (simp add: UpdatePost_def stored_def db_First_def split: option.splits sum.splits)

theorem UpdatePost_absent_witness:
  "stored [post_a] ''p2'' = None \<and>
   UpdatePost [post_a] None None 20 21 ''p2'' bob (Inr (retitle ''third''))
     = ([post_a], JSON 404 (StatusMessage ''fail'' ''No post with that title exists''))"
proof -
  have a: "stored [post_a] ''p2'' = None" by (simp add: example_defs)
  show ?thesis
    using a UpdatePost_absent_NotFound [OF a, where readFault = None and writeFault = None
        and now = 20 and tnow = 21 and currentUser = bob and payload = "retitle ''third''"]
    by (simp add: http_status)
qed

text \<open>
  C3. The claim: after a successful \<^verbatim>\<open>Update\<close> the owner of the post is still the
  creator, whoever made the update. The handler puts the identifier of the requester
  into the struct it hands to \<^verbatim>\<open>Updates\<close>, so the store writes it: in the example bob
  updates a post of alice, and the stored owner becomes bob.

  As amended: after a successful \<^verbatim>\<open>Update\<close> of an existing post, the stored owner is
  the identifier of the requester who made the update (it stays the previous owner
  only when that identifier is the zero value, which \<^verbatim>\<open>Updates\<close> skips).
\<close>

theorem UpdatePost_owner_is_requester:
  assumes "db_First db readFault postId = Inr p"
    and "snd (snd (db_Updates db writeFault tnow p (postToUpdate payload currentUser p now))) = None"
  shows "map_option User
           (stored (fst (UpdatePost db readFault writeFault now tnow postId currentUser (Inr payload)))
              postId)
           = Some (if UserID currentUser = [] then User p else UserID currentUser)"
  using UpdatePost_succeeded(2) [OF assms]
  by (simp add: assign_fields_def postToUpdate_def)

theorem UpdatePost_owner_witness:
  "db_First [post_a, post_b] None ''p1'' = Inr post_a \<and>
   snd (snd (db_Updates [post_a, post_b] None 31 post_a
               (postToUpdate (retitle []) bob post_a 30))) = None \<and>
   map_option User
     (stored (fst (UpdatePost [post_a, post_b] None None 30 31 ''p1'' bob (Inr (retitle [])))) ''p1'')
     = Some ''bob''"
proof -
  have f: "db_First [post_a, post_b] None ''p1'' = Inr post_a"
    by (simp add: example_defs)
  have u: "snd (snd (db_Updates [post_a, post_b] None 31 post_a
               (postToUpdate (retitle []) bob post_a 30))) = None"
    by (simp add: example_defs)
  show ?thesis
    using f u UpdatePost_owner_is_requester [OF f u] by (simp add: bob_def)
qed

text \<open>The claim as it stands fails: bob updates the post of alice.\<close>

theorem UpdatePost_owner_counterexample:
  "map_option User (stored [post_a] ''p1'') = Some ''alice'' \<and>
   map_option User
     (stored (fst (UpdatePost [post_a] None None 20 21 ''p1'' bob (Inr (retitle ''third'')))) ''p1'')
     = Some ''bob''"
  by (simp add: UpdatePost_def example_defs)

text \<open>
  C5. The claim: the post a successful \<^verbatim>\<open>Update\<close> returns is the snapshot read before
  the write. \<^verbatim>\<open>Updates\<close> assigns the fields it writes to the model struct as well, and
  the handler returns that struct after the call: in the example the returned post
  carries the new title and the new \<^verbatim>\<open>UpdatedAt\<close>, and differs from the record read.

  As amended: the post a successful \<^verbatim>\<open>Update\<close> of an existing record returns is the
  record read before the write with the written fields assigned (the payload's
  non-empty title, content and image, the requester as owner, the time of the update):
  it is the record the store holds after the update.
\<close>

theorem UpdatePost_returns_stored_record:
  assumes "db_First db readFault postId = Inr p"
    and "snd (snd (db_Updates db writeFault tnow p (postToUpdate payload currentUser p now))) = None"
  shows "snd (UpdatePost db readFault writeFault now tnow postId currentUser (Inr payload))
           = JSON StatusOK (StatusData ''success''
               (assign_fields tnow p (postToUpdate payload currentUser p now))) \<and>
         stored (fst (UpdatePost db readFault writeFault now tnow postId currentUser (Inr payload)))
           postId
           = Some (assign_fields tnow p (postToUpdate payload currentUser p now))"
  using UpdatePost_succeeded [OF assms] by simp

theorem UpdatePost_returns_stored_witness:
  "db_First [post_a, post_b] None ''p2'' = Inr post_b \<and>
   snd (snd (db_Updates [post_a, post_b] None 51 post_b
               (postToUpdate (retitle ''fifth'') bob post_b 50))) = None \<and>
   snd (UpdatePost [post_a, post_b] None None 50 51 ''p2'' bob (Inr (retitle ''fifth'')))
     = JSON 200 (StatusData ''success''
         (post_b\<lparr>Title := ''fifth'', User := ''bob'', UpdatedAt := 51\<rparr>)) \<and>
   stored (fst (UpdatePost [post_a, post_b] None None 50 51 ''p2'' bob (Inr (retitle ''fifth''))))
     ''p2''
     = Some (post_b\<lparr>Title := ''fifth'', User := ''bob'', UpdatedAt := 51\<rparr>)"
proof -
  have f: "db_First [post_a, post_b] None ''p2'' = Inr post_b"
    by (simp add: example_defs)
  have u: "snd (snd (db_Updates [post_a, post_b] None 51 post_b
               (postToUpdate (retitle ''fifth'') bob post_b 50))) = None"
    by (simp add: example_defs)
  have a: "assign_fields 51 post_b (postToUpdate (retitle ''fifth'') bob post_b 50)
             = post_b\<lparr>Title := ''fifth'', User := ''bob'', UpdatedAt := 51\<rparr>"
    by (simp add: example_defs)
  show ?thesis
    using f u UpdatePost_returns_stored_record [OF f u] by (simp add: a http_status)
qed

text \<open>The claim as it stands fails: the post returned is not the record that was read.\<close>

theorem UpdatePost_response_counterexample:
  "stored [post_b] ''p2'' = Some post_b \<and>
   snd (UpdatePost [post_b] None None 40 41 ''p2'' \<lparr>UserID = ''alice''\<rparr> (Inr (retitle ''fourth'')))
     = JSON 200 (StatusData ''success'' (post_b\<lparr>Title := ''fourth'', UpdatedAt := 41\<rparr>)) \<and>
   post_b\<lparr>Title := ''fourth'', UpdatedAt := 41\<rparr> \<noteq> post_b"
  by (simp add: UpdatePost_def example_defs http_status)

text \<open>
  C9. The claim: after a successful \<^verbatim>\<open>Update\<close> of an existing post the stored
  \<^verbatim>\<open>CreatedAt\<close> is the one before, the stored \<^verbatim>\<open>UpdatedAt\<close> is not earlier than the
  one before, and \<^verbatim>\<open>CreatedAt\<close> is not later than \<^verbatim>\<open>UpdatedAt\<close>. The handler copies
  \<^verbatim>\<open>CreatedAt\<close> from the record it read, and \<^verbatim>\<open>UpdatedAt\<close> becomes the reading of the
  clock at the update; nothing compares that reading with the stored times.

  As amended: after a successful \<^verbatim>\<open>Update\<close> of an existing post the stored
  \<^verbatim>\<open>CreatedAt\<close> is the one before and the stored \<^verbatim>\<open>UpdatedAt\<close> is the reading of the
  clock at the update. It is not earlier than the \<^verbatim>\<open>UpdatedAt\<close> before exactly when
  that reading is not earlier than it, and \<^verbatim>\<open>CreatedAt\<close> is not later than
  \<^verbatim>\<open>UpdatedAt\<close> exactly when the reading is not earlier than \<^verbatim>\<open>CreatedAt\<close>.
\<close>

theorem UpdatePost_timestamps_stamped:
  assumes "db_First db readFault postId = Inr p"
    and "snd (snd (db_Updates db writeFault tnow p (postToUpdate payload currentUser p now))) = None"
  shows "case stored (fst (UpdatePost db readFault writeFault now tnow postId currentUser
                             (Inr payload))) postId of
           None \<Rightarrow> False
         | Some q \<Rightarrow>
             CreatedAt q = CreatedAt p \<and> UpdatedAt q = tnow \<and>
             (UpdatedAt p \<le> UpdatedAt q) = (UpdatedAt p \<le> tnow) \<and>
             (CreatedAt q \<le> UpdatedAt q) = (CreatedAt p \<le> tnow)"
  using UpdatePost_succeeded(2) [OF assms]
  by (simp add: assign_fields_def postToUpdate_def)

theorem UpdatePost_timestamps_stamped_witness:
  "db_First [post_a, post_b] None ''p1'' = Inr post_a \<and>
   snd (snd (db_Updates [post_a, post_b] None 61 post_a
               (postToUpdate (retitle ''sixth'') bob post_a 60))) = None \<and>
   (case stored (fst (UpdatePost [post_a, post_b] None None 60 61 ''p1'' bob
                        (Inr (retitle ''sixth'')))) ''p1'' of
      None \<Rightarrow> False
    | Some q \<Rightarrow>
        CreatedAt q = 5 \<and> UpdatedAt q = 61 \<and> UpdatedAt post_a \<le> UpdatedAt q \<and>
        CreatedAt q \<le> UpdatedAt q)"
proof -
  have f: "db_First [post_a, post_b] None ''p1'' = Inr post_a"
    by (simp add: example_defs)
  have u: "snd (snd (db_Updates [post_a, post_b] None 61 post_a
               (postToUpdate (retitle ''sixth'') bob post_a 60))) = None"
    by (simp add: example_defs)
  show ?thesis
    using f u UpdatePost_timestamps_stamped [OF f u]
    by (auto simp: post_a_def split: option.splits)
qed

text \<open>
  The claim as it stands fails: the post was updated at 7, the clock reads 3 at the
  update, and the write succeeds. The stored \<^verbatim>\<open>UpdatedAt\<close> becomes 3, earlier than the
  7 before and than the \<^verbatim>\<open>CreatedAt\<close> 5.
\<close>

theorem UpdatePost_timestamps_counterexample:
  "map_option (\<lambda>q. (CreatedAt q, UpdatedAt q)) (stored [post_a] ''p1'') = Some (5, 7) \<and>
   snd (snd (db_Updates [post_a] None 3 post_a (postToUpdate (retitle ''seventh'') bob post_a 2)))
     = None \<and>
   map_option (\<lambda>q. (CreatedAt q, UpdatedAt q))
     (stored (fst (UpdatePost [post_a] None None 2 3 ''p1'' bob (Inr (retitle ''seventh'')))) ''p1'')
     = Some (5, 3)"
  by (simp add: UpdatePost_def example_defs)

text \<open>
  C10. In a successful \<^verbatim>\<open>Update\<close> of an existing post, a payload field among title,
  content and image that is the empty string leaves the stored field as it was, and a
  non-empty one overwrites it.
\<close>

theorem UpdatePost_skips_empty_fields:
  assumes "db_First db readFault postId = Inr p"
    and "snd (snd (db_Updates db writeFault tnow p (postToUpdate payload currentUser p now))) = None"
  shows "case stored (fst (UpdatePost db readFault writeFault now tnow postId currentUser
                             (Inr payload))) postId of
           None \<Rightarrow> False
         | Some q \<Rightarrow>
             Title q = (if UpdTitle payload = [] then Title p else UpdTitle payload) \<and>
             Content q = (if UpdContent payload = [] then Content p else UpdContent payload) \<and>
             Image q = (if UpdImage payload = [] then Image p else UpdImage payload)"
  using UpdatePost_succeeded(2) [OF assms]
  by (simp add: assign_fields_def postToUpdate_def)

theorem UpdatePost_skips_empty_witness:
  "db_First [post_a, post_b] None ''p1'' = Inr post_a \<and>
   snd (snd (db_Updates [post_a, post_b] None 71 post_a
               (postToUpdate \<lparr>UpdTitle = [], UpdContent = ''bye'', UpdImage = []\<rparr> bob post_a 70)))
     = None \<and>
   map_option (\<lambda>q. (Title q, Content q, Image q))
     (stored (fst (UpdatePost [post_a, post_b] None None 70 71 ''p1'' bob
                     (Inr \<lparr>UpdTitle = [], UpdContent = ''bye'', UpdImage = []\<rparr>))) ''p1'')
     = Some (''first'', ''bye'', ''a.png'')"
proof -
  have f: "db_First [post_a, post_b] None ''p1'' = Inr post_a"
    by (simp add: example_defs)
  have u: "snd (snd (db_Updates [post_a, post_b] None 71 post_a
               (postToUpdate \<lparr>UpdTitle = [], UpdContent = ''bye'', UpdImage = []\<rparr> bob post_a 70)))
     = None"
    by (simp add: example_defs)
  show ?thesis
    using f u UpdatePost_skips_empty_fields [OF f u]
    by (auto simp: post_a_def split: option.splits)
qed

text \<open>
  C6. When the write of a \<^verbatim>\<open>Create\<close> fails in the store, the handler looks for the
  text \<open>duplicate key\<close> in the error: with it the answer is 409, and for every other
  error it is 502 with the error's text. The table is as it was. The examples are a
  title that a stored post holds, and a store that refuses the connection.
\<close>

theorem CreatePost_store_failure_status:
  assumes "db_Create db fault newId (newPost payload currentUser now) = (db', p', Some e)"
  shows "CreatePost db fault newId now currentUser (Inr payload) =
           (db,
            if sublist ''duplicate key'' e
            then JSON StatusConflict (StatusMessage ''fail'' ''Post with that title already exists'')
            else JSON StatusBadGateway (StatusMessage ''error'' e))"
  using assms db_Create_failed [OF assms] by (simp add: CreatePost_def Contains_sublist)

theorem CreatePost_store_failure_witness:
  "db_Create [post_a] None ''p3'' (newPost request_a bob 80)
     = ([post_a], newPost request_a bob 80, Some duplicate_key) \<and>
   CreatePost [post_a] None ''p3'' 80 bob (Inr request_a)
     = ([post_a], JSON 409 (StatusMessage ''fail'' ''Post with that title already exists'')) \<and>
   db_Create [post_a] (Some ''connection refused'') ''p3'' (newPost request_a bob 80)
     = ([post_a], newPost request_a bob 80, Some ''connection refused'') \<and>
   CreatePost [post_a] (Some ''connection refused'') ''p3'' 80 bob (Inr request_a)
     = ([post_a], JSON 502 (StatusMessage ''error'' ''connection refused''))"
proof -
  have d: "db_Create [post_a] None ''p3'' (newPost request_a bob 80)
     = ([post_a], newPost request_a bob 80, Some duplicate_key)"
    by (simp add: db_Create_def newPost_def request_a_def post_a_def)
  have c: "db_Create [post_a] (Some ''connection refused'') ''p3'' (newPost request_a bob 80)
     = ([post_a], newPost request_a bob 80, Some ''connection refused'')"
    by (simp add: db_Create_def)
  have s1: "Contains duplicate_key ''duplicate key''"
    by (simp add: duplicate_key_def)
  have s2: "\<not> Contains ''connection refused'' ''duplicate key''"
    by simp
  show ?thesis
    using d c CreatePost_store_failure_status [OF d] CreatePost_store_failure_status [OF c]
      s1 s2
    by (simp add: Contains_sublist http_status)
qed




text \<open>
  C7. For a \<^verbatim>\<open>page\<close> and a \<^verbatim>\<open>limit\<close> that parse, the limit not negative, the store
  is asked for \<open>limit\<close> rows from the offset \<open>(page - 1) * limit\<close> (computed on
  \<^verbatim>\<open>int\<close>; an offset that is not positive skips nothing), it returns at most \<open>limit\<close>
  rows, and the count in the answer is the number of rows returned. On fifteen stored
  posts, page 1 with limit 10 returns the first ten and page 2 the remaining five.
\<close>

theorem FindPosts_window:
  "(Atoi (DefaultQuery pageq ''1'') = (page, None) \<and>
    Atoi (DefaultQuery limitq ''10'') = (limit, None) \<and> 0 \<le> sint limit \<longrightarrow>
      (let offset = (page - 1) * limit;
           posts = take (nat (sint limit)) (drop (nat (sint offset)) db)
       in db_Find db None limit offset = (posts, None) \<and>
          FindPosts db None pageq limitq
            = JSON StatusOK (StatusResults ''success'' (length posts) posts) \<and>
          length posts \<le> nat (sint limit))) \<and>
   (length db = 15 \<longrightarrow>
      FindPosts db None (Some ''1'') (Some ''10'')
        = JSON StatusOK (StatusResults ''success'' 10 (take 10 db)) \<and>
      FindPosts db None (Some ''2'') (Some ''10'')
        = JSON StatusOK (StatusResults ''success'' 5 (drop 10 db)))"
proof (intro conjI impI)
  assume a: "Atoi (DefaultQuery pageq ''1'') = (page, None) \<and>
    Atoi (DefaultQuery limitq ''10'') = (limit, None) \<and> 0 \<le> sint limit"
  then show "let offset = (page - 1) * limit;
           posts = take (nat (sint limit)) (drop (nat (sint offset)) db)
       in db_Find db None limit offset = (posts, None) \<and>
          FindPosts db None pageq limitq
            = JSON StatusOK (StatusResults ''success'' (length posts) posts) \<and>
          length posts \<le> nat (sint limit)"
    by (simp add: FindPosts_def db_Find_window Let_def)
next
  assume "length db = 15"
  then show "FindPosts db None (Some ''1'') (Some ''10'')
        = JSON StatusOK (StatusResults ''success'' 10 (take 10 db))"
    by (simp add: FindPosts_def DefaultQuery_def Atoi_literals db_Find_window)
next
  assume "length db = 15"
  then show "FindPosts db None (Some ''2'') (Some ''10'')
        = JSON StatusOK (StatusResults ''success'' 5 (drop 10 db))"
    by (simp add: FindPosts_def DefaultQuery_def Atoi_literals db_Find_window)
qed

theorem FindPosts_window_witness:
  "Atoi (DefaultQuery (Some ''2'') ''1'') = (2, None) \<and>
   Atoi (DefaultQuery None ''10'') = (10, None) \<and> 0 \<le> sint (10 :: go_int) \<and>
   FindPosts fifteen_posts None (Some ''2'') None
     = JSON 200 (StatusResults ''success'' 5 (drop 10 fifteen_posts)) \<and>
   length fifteen_posts = 15 \<and>
   FindPosts fifteen_posts None (Some ''1'') (Some ''10'')
     = JSON 200 (StatusResults ''success'' 10 (take 10 fifteen_posts)) \<and>
   FindPosts fifteen_posts None (Some ''2'') (Some ''10'')
     = JSON 200 (StatusResults ''success'' 5 (drop 10 fifteen_posts))"
proof -
  have p: "Atoi (DefaultQuery (Some ''2'') ''1'') = (2, None)"
    by (simp add: DefaultQuery_def Atoi_literals)
  have l: "Atoi (DefaultQuery None ''10'') = (10, None)"
    by (simp add: DefaultQuery_def Atoi_literals)
  have s: "0 \<le> sint (10 :: go_int)"
    by simp
  show ?thesis
    using p l s length_fifteen_posts
      FindPosts_window [of "Some ''2''" 2 None 10 fifteen_posts]
    by (simp add: Let_def http_status)
qed

end
